theory Spec2Isabelle
  imports Main "HOL-Library.Sublist"
begin

section \<open>Python strings\<close>

text \<open>
  A Python \<open>str\<close> is modelled as a \<open>string\<close>. The model is exact on ASCII text;
  characters from 128 on are kept as they are by \<open>lower\<close>, are no whitespace and are
  outside \<open>string.printable\<close>.
\<close>

definition is_upper :: "char \<Rightarrow> bool" where
  "is_upper c = (65 \<le> (of_char c :: nat) \<and> (of_char c :: nat) \<le> 90)"

definition is_lower :: "char \<Rightarrow> bool" where
  "is_lower c = (97 \<le> (of_char c :: nat) \<and> (of_char c :: nat) \<le> 122)"

definition is_digit :: "char \<Rightarrow> bool" where
  "is_digit c = (48 \<le> (of_char c :: nat) \<and> (of_char c :: nat) \<le> 57)"

text \<open>\<open>str.isspace\<close> on ASCII: tab, newline, VT, FF, CR, the separators 28..31, space.\<close>

definition is_space :: "char \<Rightarrow> bool" where
  "is_space c = ((9 \<le> (of_char c :: nat) \<and> (of_char c :: nat) \<le> 13)
                 \<or> (28 \<le> (of_char c :: nat) \<and> (of_char c :: nat) \<le> 32))"

definition lower_char :: "char \<Rightarrow> char" where
  "lower_char c = (if is_upper c then char_of ((of_char c :: nat) + 32) else c)"

text \<open>\<open>s.lower()\<close>\<close>

definition lower :: "string \<Rightarrow> string" where
  "lower s = map lower_char s"

text \<open>\<open>s.replace(old, "")\<close> for a one-character \<open>old\<close>\<close>

definition replace_del :: "char \<Rightarrow> string \<Rightarrow> string" where
  "replace_del old s = filter (\<lambda>c. c \<noteq> old) s"

text \<open>
  \<open>s.split()\<close>: the maximal runs of non-whitespace characters, in order. The first
  argument is the word being read.
\<close>

fun split_aux :: "string \<Rightarrow> string \<Rightarrow> string list" where
  "split_aux cur [] = (if cur = [] then [] else [cur])"
| "split_aux cur (c # cs) =
     (if is_space c then (if cur = [] then split_aux [] cs else cur # split_aux [] cs)
      else split_aux (cur @ [c]) cs)"

definition split :: "string \<Rightarrow> string list" where
  "split s = split_aux [] s"

text \<open>\<open>sep.join(xs)\<close>\<close>

fun join :: "string \<Rightarrow> string list \<Rightarrow> string" where
  "join sep [] = []"
| "join sep [x] = x"
| "join sep (x # y # ys) = x @ sep @ join sep (y # ys)"

section \<open>The wildcard matcher\<close>

text \<open>\<open>first_some\<close>: the first result that is not \<open>None\<close>.\<close>

fun first_some :: "'a option list \<Rightarrow> 'a option" where
  "first_some [] = None"
| "first_some (None # xs) = first_some xs"
| "first_some (Some x # xs) = Some x"

text \<open>
  Modelled from the spec: the module \<open>match\<close> (\<open>from match import match\<close>) is not among
  the sources. Section 4.2 of the specification gives its contract: an empty pattern
  matches the empty input only, with an empty capture; a literal head needs a non-empty
  input whose head is the literal up to case, and the capture is the tail's capture; the
  wildcard marker \<open>%\<close> tries every non-empty prefix of the input, longest first, takes the
  first one whose remainder matches the rest of the pattern, and puts that prefix in
  front of the capture.
\<close>

fun match :: "string list \<Rightarrow> string list \<Rightarrow> string list option" where
  "match [] src = (if src = [] then Some [] else None)"
| "match (p # ps) src =
     (if p = ''%'' then
        first_some (map (\<lambda>k. map_option (\<lambda>m. take k src @ m) (match ps (drop k src)))
                        (rev [1 ..< Suc (length src)]))
      else (case src of
              [] \<Rightarrow> None
            | s # ss \<Rightarrow> if lower s = lower p then match ps ss else None))"

section \<open>Regular expressions\<close>

text \<open>
  The constructs of Python's \<open>re\<close> that the extraction patterns use, as a syntax tree,
  and its backtracking search. A repetition is over one character (\<open>x*\<close>, \<open>x+\<close>,
  \<open>x{n}\<close>, \<open>x*?\<close>), the optional group \<open>(?:...)?\<close> is over any expression.
\<close>

datatype citem = CChar char | CDigit | CWord | CSpace

datatype atom = Lit char | Dot | Digit | NonDigit | Class "citem list"

datatype regex =
    Eps
  | Atom atom
  | Cat regex regex
  | Rep bool nat "nat option" atom  \<comment> \<open>greedy?, least count, greatest count\<close>
  | Opt regex
  | Group string regex

record flags =
  ignorecase :: bool
  dotall :: bool

definition is_word :: "char \<Rightarrow> bool" where
  "is_word c = (is_lower c \<or> is_upper c \<or> is_digit c \<or> c = CHR ''_'')"

fun citem_ok :: "flags \<Rightarrow> citem \<Rightarrow> char \<Rightarrow> bool" where
  "citem_ok fl (CChar x) c = (if ignorecase fl then lower_char c = lower_char x else c = x)"
| "citem_ok fl CDigit c = is_digit c"
| "citem_ok fl CWord c = is_word c"
| "citem_ok fl CSpace c = is_space c"

fun atom_ok :: "flags \<Rightarrow> atom \<Rightarrow> char \<Rightarrow> bool" where
  "atom_ok fl (Lit x) c = (if ignorecase fl then lower_char c = lower_char x else c = x)"
| "atom_ok fl Dot c = (dotall fl \<or> c \<noteq> CHR 0x0A)"
| "atom_ok fl Digit c = is_digit c"
| "atom_ok fl NonDigit c = (\<not> is_digit c)"
| "atom_ok fl (Class items) c = list_ex (\<lambda>i. citem_ok fl i c) items"

text \<open>The captures so far: group name and captured text, the latest first.\<close>

type_synonym caps = "(string \<times> string) list"

text \<open>
  A greedy repetition that can take \<open>n\<close> characters tries the rest of the pattern after
  \<open>n\<close>, \<open>n - 1\<close>, ... down to \<open>lo\<close> of them; a lazy one after \<open>n\<close>, \<open>n + 1\<close>, ...
\<close>

primrec try_down :: "(string \<Rightarrow> 'r option) \<Rightarrow> string \<Rightarrow> nat \<Rightarrow> nat \<Rightarrow> 'r option" where
  "try_down k s lo 0 = (if 0 < lo then None else k s)"
| "try_down k s lo (Suc n) =
     (if Suc n < lo then None
      else (case k (drop (Suc n) s) of
              Some r \<Rightarrow> Some r
            | None \<Rightarrow> try_down k s lo n))"

primrec try_up :: "(string \<Rightarrow> 'r option) \<Rightarrow> string \<Rightarrow> nat \<Rightarrow> nat \<Rightarrow> 'r option" where
  "try_up k s n 0 = k (drop n s)"
| "try_up k s n (Suc d) =
     (case k (drop n s) of
        Some r \<Rightarrow> Some r
      | None \<Rightarrow> try_up k s (Suc n) d)"

definition run_length :: "flags \<Rightarrow> atom \<Rightarrow> nat option \<Rightarrow> string \<Rightarrow> nat" where
  "run_length fl a hi s =
     (let n = length (takeWhile (atom_ok fl a) s)
      in case hi of None \<Rightarrow> n | Some h \<Rightarrow> min h n)"

text \<open>
  \<open>mt fl r k s c\<close> matches \<open>r\<close> at the head of \<open>s\<close> and hands the rest of the text and
  the captures to the continuation \<open>k\<close>; a \<open>None\<close> from \<open>k\<close> makes it backtrack.
\<close>

fun mt :: "flags \<Rightarrow> regex \<Rightarrow> (string \<Rightarrow> caps \<Rightarrow> 'r option) \<Rightarrow> string \<Rightarrow> caps \<Rightarrow> 'r option" where
  "mt fl Eps k s c = k s c"
| "mt fl (Atom a) k s c =
     (case s of [] \<Rightarrow> None | x # xs \<Rightarrow> if atom_ok fl a x then k xs c else None)"
| "mt fl (Cat r1 r2) k s c = mt fl r1 (mt fl r2 k) s c"
| "mt fl (Rep greedy lo hi a) k s c =
     (let n = run_length fl a hi s
      in if n < lo then None
         else if greedy then try_down (\<lambda>s'. k s' c) s lo n
         else try_up (\<lambda>s'. k s' c) s lo (n - lo))"
| "mt fl (Opt r) k s c =
     (case mt fl r k s c of Some x \<Rightarrow> Some x | None \<Rightarrow> k s c)"
| "mt fl (Group name r) k s c =
     mt fl r (\<lambda>s' c'. k s' ((name, take (length s - length s') s) # c')) s c"

text \<open>The \<open>Match\<close> object: the span of the match and the named groups.\<close>

record match_obj =
  m_start :: nat
  m_end :: nat
  m_groups :: caps

text \<open>A match of \<open>r\<close> that starts at the head of \<open>s\<close>: the text left over and the groups.\<close>

definition match_here :: "flags \<Rightarrow> regex \<Rightarrow> string \<Rightarrow> (string \<times> caps) option" where
  "match_here fl r s = mt fl r (\<lambda>s' c. Some (s', c)) s []"

text \<open>
  \<open>p.search(text)\<close>: the match at the leftmost position that has one. \<open>pos\<close> is the
  position of \<open>s\<close> in the text.
\<close>

fun search_at :: "flags \<Rightarrow> regex \<Rightarrow> nat \<Rightarrow> string \<Rightarrow> match_obj option" where
  "search_at fl r pos [] =
     (case match_here fl r [] of
        Some (s', c) \<Rightarrow> Some \<lparr>m_start = pos, m_end = pos, m_groups = c\<rparr>
      | None \<Rightarrow> None)"
| "search_at fl r pos (x # xs) =
     (case match_here fl r (x # xs) of
        Some (s', c) \<Rightarrow>
          Some \<lparr>m_start = pos, m_end = pos + (length (x # xs) - length s'), m_groups = c\<rparr>
      | None \<Rightarrow> search_at fl r (Suc pos) xs)"

text \<open>\<open>caps_in c s\<close>: every captured text in \<open>c\<close> is a contiguous part of \<open>s\<close>.\<close>

definition caps_in :: "caps \<Rightarrow> string \<Rightarrow> bool" where
  "caps_in c s = list_all (\<lambda>ng. sublist (snd ng) s) c"

definition re_search :: "flags \<Rightarrow> regex \<Rightarrow> string \<Rightarrow> match_obj option" where
  "re_search fl r text = search_at fl r 0 text"

definition cats :: "regex list \<Rightarrow> regex" where
  "cats rs = foldr Cat rs Eps"

definition lits :: "string \<Rightarrow> regex" where
  "lits s = cats (map (\<lambda>c. Atom (Lit c)) s)"

section \<open>Exceptions and the outside world\<close>

datatype exn =
    AttributeError string
  | LookupError string
  | IndexError string
  | KeyboardInterrupt
  | EOFError
  | OtherError string

text \<open>
  \<open>m.group(name)\<close>: the text of the named group; a name the match does not have raises
  \<open>IndexError\<close>.
\<close>

definition group :: "match_obj \<Rightarrow> string \<Rightarrow> exn + string" where
  "group m name =
     (case map_of (m_groups m) name of
        None \<Rightarrow> Inl (IndexError ''no such group'')
      | Some g \<Rightarrow> Inr g)"

text \<open>
  The libraries behind the document provider are parameters: what \<open>wikipedia.search\<close>
  returns for a title, the html of a page, and the texts of the elements of class
  \<open>infobox\<close> that BeautifulSoup finds in an html page, in document order.
\<close>

record world =
  wikipedia_search :: "string \<Rightarrow> exn + string list"
  page_html :: "string \<Rightarrow> exn + string"
  infobox_texts :: "string \<Rightarrow> string list"

text \<open>What a call printed, and what it returned or raised.\<close>

type_synonym 'a io = "string list \<times> (exn + 'a)"

section \<open>The program\<close>

definition get_page_html :: "world \<Rightarrow> string \<Rightarrow> exn + string" where
  "get_page_html w title =
     (case wikipedia_search w title of
        Inl e \<Rightarrow> Inl e
      | Inr results \<Rightarrow>
          (case results of
             [] \<Rightarrow> Inl (IndexError ''list index out of range'')
           | r # _ \<Rightarrow> page_html w r))"

definition get_first_infobox_text :: "world \<Rightarrow> string \<Rightarrow> exn + string" where
  "get_first_infobox_text w html =
     (case infobox_texts w html of
        [] \<Rightarrow> Inl (LookupError ''Page has no infobox'')
      | r # _ \<Rightarrow> Inr r)"

text \<open>\<open>string.printable\<close>: the characters 32..126 and tab, newline, VT, FF, CR.\<close>

definition printable :: "char \<Rightarrow> bool" where
  "printable c = ((32 \<le> (of_char c :: nat) \<and> (of_char c :: nat) \<le> 126)
                  \<or> (9 \<le> (of_char c :: nat) \<and> (of_char c :: nat) \<le> 13))"

text \<open>\<open>re.sub("c+", "c", s)\<close> for a character \<open>c\<close>\<close>

function re_sub_plus :: "char \<Rightarrow> string \<Rightarrow> string" where
  "re_sub_plus c [] = []"
| "re_sub_plus c (x # xs) =
     (if x = c then c # re_sub_plus c (dropWhile (\<lambda>y. y = c) xs)
      else x # re_sub_plus c xs)"
  by pat_completeness auto
termination
  by (relation "measure (\<lambda>(c, s). length s)")
     (auto simp: length_dropWhile_le le_imp_less_Suc)

definition clean_text :: "string \<Rightarrow> string" where
  "clean_text text =
     (let only_ascii = map (\<lambda>char. if printable char then char else CHR '' '') text;
          no_dup_spaces = re_sub_plus CHR '' '' only_ascii;
          no_dup_newlines = re_sub_plus CHR 0x0A no_dup_spaces
      in no_dup_newlines)"

text \<open>
  The cleaning as the specification words it: a character outside the printable set is
  removed; then every run of spaces becomes one space and every run of newlines one
  newline. \<open>collapse_runs c\<close> drops each \<open>c\<close> that another \<open>c\<close> follows.
\<close>

fun collapse_runs :: "char \<Rightarrow> string \<Rightarrow> string" where
  "collapse_runs c [] = []"
| "collapse_runs c [x] = [x]"
| "collapse_runs c (x # y # ys) =
     (if x = c \<and> y = c then collapse_runs c (y # ys) else x # collapse_runs c (y # ys))"

definition clean_text_removing :: "string \<Rightarrow> string" where
  "clean_text_removing text =
     collapse_runs CHR 0x0A (collapse_runs CHR '' '' (filter printable text))"

text \<open>\<open>has_double c s\<close>: two \<open>c\<close> stand side by side in \<open>s\<close>.\<close>

fun has_double :: "char \<Rightarrow> string \<Rightarrow> bool" where
  "has_double c [] = False"
| "has_double c [x] = False"
| "has_double c (x # y # ys) = ((x = c \<and> y = c) \<or> has_double c (y # ys))"

definition get_match_flags :: flags where
  "get_match_flags = \<lparr>ignorecase = True, dotall = True\<rparr>"

definition get_match :: "string \<Rightarrow> regex \<Rightarrow> string \<Rightarrow> exn + match_obj" where
  "get_match text pattern error_text =
     (case re_search get_match_flags pattern text of
        None \<Rightarrow> Inl (AttributeError error_text)
      | Some m \<Rightarrow> Inr m)"

text \<open>\<open>clean_text(get_first_infobox_text(get_page_html(name)))\<close>\<close>

definition infobox_of :: "world \<Rightarrow> string \<Rightarrow> exn + string" where
  "infobox_of w name =
     (case get_page_html w name of
        Inl e \<Rightarrow> Inl e
      | Inr html \<Rightarrow>
          (case get_first_infobox_text w html of
             Inl e \<Rightarrow> Inl e
           | Inr t \<Rightarrow> Inr (clean_text t)))"

text \<open>
  The part every \<open>get_...\<close> function shares after it has the infobox: search the
  pattern, read the named group, build the sentence.
\<close>

definition extract_field :: "string \<Rightarrow> regex \<Rightarrow> string \<Rightarrow> string \<Rightarrow> (string \<Rightarrow> string) \<Rightarrow> exn + string" where
  "extract_field infobox_text pattern error_text name sentence =
     (case get_match infobox_text pattern error_text of
        Inl e \<Rightarrow> Inl e
      | Inr m \<Rightarrow> (case group m name of Inl e \<Rightarrow> Inl e | Inr g \<Rightarrow> Inr (sentence g)))"

text \<open>\<^verbatim>\<open>(?:Polar radius.*?)(?: ?[\d]+ )?(?P<radius>[\d,.]+)(?:.*?)km\<close>\<close>

definition polar_radius_pattern :: regex where
  "polar_radius_pattern =
     cats [cats [lits ''Polar radius'', Rep False 0 None Dot],
           Opt (cats [Rep True 0 (Some 1) (Lit CHR '' ''), Rep True 1 None (Class [CDigit]),
                      Atom (Lit CHR '' '')]),
           Group ''radius'' (Rep True 1 None (Class [CDigit, CChar CHR '','', CChar CHR ''.''])),
           Rep False 0 None Dot,
           lits ''km'']"

definition get_polar_radius :: "world \<Rightarrow> string \<Rightarrow> string io" where
  "get_polar_radius w planet_name =
     (case infobox_of w planet_name of
        Inl e \<Rightarrow> ([], Inl e)
      | Inr infobox_text \<Rightarrow>
          ([], extract_field infobox_text polar_radius_pattern
                 ''Page infobox has no polar radius information'' ''radius''
                 (\<lambda>g. ''the polar radius of '' @ planet_name @ '' is '' @ g @ '' km'')))"

text \<open>\<^verbatim>\<open>(?:Born\D*)(?P<birth>\d{4}-\d{2}-\d{2})\<close>\<close>

definition birth_pattern :: regex where
  "birth_pattern =
     cats [cats [lits ''Born'', Rep True 0 None NonDigit],
           Group ''birth''
             (cats [Rep True 4 (Some 4) Digit, Atom (Lit CHR ''-''),
                    Rep True 2 (Some 2) Digit, Atom (Lit CHR ''-''),
                    Rep True 2 (Some 2) Digit])]"

definition get_birth_date :: "world \<Rightarrow> string \<Rightarrow> string io" where
  "get_birth_date w name =
     (case infobox_of w name of
        Inl e \<Rightarrow> ([], Inl e)
      | Inr infobox_text \<Rightarrow>
          ([], extract_field infobox_text birth_pattern
                 ''Page infobox has no birth information (at least none in xxxx-xx-xx format)''
                 ''birth''
                 (\<lambda>g. name @ '' was born on this date: '' @ g)))"

text \<open>\<^verbatim>\<open>Population\D*\d{4}[)\[\d]*\D*(?P<Population>[\d,]+)\<close>\<close>

definition population_pattern :: regex where
  "population_pattern =
     cats [lits ''Population'', Rep True 0 None NonDigit, Rep True 4 (Some 4) Digit,
           Rep True 0 None (Class [CChar CHR '')'', CChar CHR ''['', CDigit]),
           Rep True 0 None NonDigit,
           Group ''Population'' (Rep True 1 None (Class [CDigit, CChar CHR '','']))]"

definition get_population_size :: "world \<Rightarrow> string \<Rightarrow> string io" where
  "get_population_size w place =
     (case infobox_of w place of
        Inl e \<Rightarrow> ([], Inl e)
      | Inr infobox_text \<Rightarrow>
          ([infobox_text],
           extract_field infobox_text population_pattern
             ''Page infobox has no population information'' ''Population''
             (\<lambda>g. place @ '' has a population of '' @ g)))"

text \<open>\<^verbatim>\<open>Established[\n\s]*(?P<time>[\d\w\s,]+)[;\(]+\<close>\<close>

definition establish_pattern :: regex where
  "establish_pattern =
     cats [lits ''Established'', Rep True 0 None (Class [CChar CHR 0x0A, CSpace]),
           Group ''time'' (Rep True 1 None (Class [CDigit, CWord, CSpace, CChar CHR '',''])),
           Rep True 1 None (Class [CChar CHR '';'', CChar CHR ''(''])]"

definition get_establish_year :: "world \<Rightarrow> string \<Rightarrow> string io" where
  "get_establish_year w thing =
     (case infobox_of w thing of
        Inl e \<Rightarrow> ([], Inl e)
      | Inr infobox_text \<Rightarrow>
          ([infobox_text],
           extract_field infobox_text establish_pattern
             ''Page infobox has no establishment information (at least not in the 'established' format)''
             ''time''
             (\<lambda>g. thing @ '' was established in '' @ g)))"

text \<open>\<^verbatim>\<open>Undergraduates[\n\s]*(?P<Ugrad>[\d,]+)\<close>\<close>

definition ugrad_pattern :: regex where
  "ugrad_pattern =
     cats [lits ''Undergraduates'', Rep True 0 None (Class [CChar CHR 0x0A, CSpace]),
           Group ''Ugrad'' (Rep True 1 None (Class [CDigit, CChar CHR '','']))]"

definition get_ugrad_pop :: "world \<Rightarrow> string \<Rightarrow> string io" where
  "get_ugrad_pop w school =
     (case infobox_of w school of
        Inl e \<Rightarrow> ([], Inl e)
      | Inr infobox_text \<Rightarrow>
          ([infobox_text],
           extract_field infobox_text ugrad_pattern
             ''Page infobox has no information on undergraduate population'' ''Ugrad''
             (\<lambda>g. school @ '' has an undergraduate population of '' @ g)))"

subsection \<open>Actions\<close>

type_synonym action = "string list \<Rightarrow> string list io"

text \<open>\<open>[x]\<close> around the result of a call that may raise\<close>

definition singleton :: "string io \<Rightarrow> string list io" where
  "singleton r = (case r of (out, Inl e) \<Rightarrow> (out, Inl e) | (out, Inr a) \<Rightarrow> (out, Inr [a]))"

text \<open>\<open>f(matches[0])\<close>: the index raises on an empty list before \<open>f\<close> is called\<close>

definition on_first :: "(string \<Rightarrow> string io) \<Rightarrow> string list \<Rightarrow> string io" where
  "on_first f matches =
     (case matches of
        [] \<Rightarrow> ([], Inl (IndexError ''list index out of range''))
      | m # _ \<Rightarrow> f m)"

definition birth_date :: "world \<Rightarrow> action" where
  "birth_date w matches = singleton (get_birth_date w (join '' '' matches))"

definition polar_radius :: "world \<Rightarrow> action" where
  "polar_radius w matches = singleton (on_first (get_polar_radius w) matches)"

definition population_size :: "world \<Rightarrow> action" where
  "population_size w matches = singleton (on_first (get_population_size w) matches)"

definition establish_year :: "world \<Rightarrow> action" where
  "establish_year w matches = singleton (on_first (get_establish_year w) matches)"

definition ugrad_pop :: "world \<Rightarrow> action" where
  "ugrad_pop w matches = singleton (on_first (get_ugrad_pop w) matches)"

definition bye_action :: action where
  "bye_action dummy = ([], Inl KeyboardInterrupt)"

subsection \<open>The pattern-action list and its search\<close>

definition pa_list :: "world \<Rightarrow> (string list \<times> action) list" where
  "pa_list w =
     [(split ''when was % born'', birth_date w),
      (split ''what is the polar radius of %'', polar_radius w),
      (split ''When was % established'', population_size w),
      (split ''what is the population of %'', population_size w),
      (split ''what year was % established'', establish_year w),
      (split ''what is the undergraduate population of %'', ugrad_pop w),
      ([''bye''], bye_action)]"

text \<open>The loop of \<open>search_pa_list\<close>, over the rules that are left.\<close>

fun search_pa :: "(string list \<times> action) list \<Rightarrow> string list \<Rightarrow> string list io" where
  "search_pa [] src = ([], Inr [''I don't understand''])"
| "search_pa ((pat, act) # rest) src =
     (case match pat src of
        None \<Rightarrow> search_pa rest src
      | Some mat \<Rightarrow>
          (case act mat of
             (out, Inl e) \<Rightarrow> (out, Inl e)
           | (out, Inr answer) \<Rightarrow> (out, Inr (if answer = [] then [''No answers''] else answer))))"

definition search_pa_list :: "world \<Rightarrow> string list \<Rightarrow> string list io" where
  "search_pa_list w src = search_pa (pa_list w) src"

subsection \<open>The query loop\<close>

datatype step = Continue | Break | Crash exn

datatype outcome = Finished | Crashed exn

definition tokenize :: "string \<Rightarrow> string list" where
  "tokenize line = split (lower (replace_del CHR ''?'' line))"

text \<open>
  One turn of the \<open>while\<close> loop on a line that \<open>input\<close> returned: what is printed (the
  empty \<open>print()\<close>, the prompt, what the action prints, the answers or the diagnostic)
  and how the loop goes on.
\<close>

definition query_step :: "world \<Rightarrow> string \<Rightarrow> string list \<times> step" where
  "query_step w line =
     (let query = tokenize line
      in case search_pa_list w query of
           (out, Inr answers) \<Rightarrow> ([[], ''Your query? ''] @ out @ answers, Continue)
         | (out, Inl KeyboardInterrupt) \<Rightarrow> ([[], ''Your query? ''] @ out, Break)
         | (out, Inl EOFError) \<Rightarrow> ([[], ''Your query? ''] @ out, Break)
         | (out, Inl (AttributeError x)) \<Rightarrow>
             ([[], ''Your query? ''] @ out @ [''Page does not match pattern!''], Continue)
         | (out, Inl e) \<Rightarrow> ([[], ''Your query? ''] @ out, Crash e))"

text \<open>
  The loop over the lines typed; at the end of the input \<open>input\<close> raises \<open>EOFError\<close>,
  which leaves the loop.
\<close>

fun query_turns :: "world \<Rightarrow> string list \<Rightarrow> string list \<times> outcome" where
  "query_turns w [] = ([[], ''Your query? ''], Finished)"
| "query_turns w (line # rest) =
     (case query_step w line of
        (out, Continue) \<Rightarrow> (case query_turns w rest of (out', oc) \<Rightarrow> (out @ out', oc))
      | (out, Break) \<Rightarrow> (out, Finished)
      | (out, Crash e) \<Rightarrow> (out, Crashed e))"

definition query_loop :: "world \<Rightarrow> string list \<Rightarrow> string list \<times> outcome" where
  "query_loop w inputs =
     (case query_turns w inputs of
        (out, Finished) \<Rightarrow>
          ([''Welcome to the wikipedia database!'' @ [CHR 0x0A]] @ out
             @ [[CHR 0x0A] @ ''So long!'' @ [CHR 0x0A]], Finished)
      | (out, Crashed e) \<Rightarrow>
          ([''Welcome to the wikipedia database!'' @ [CHR 0x0A]] @ out, Crashed e))"

subsection \<open>Sample worlds\<close>

text \<open>
  A world where the search returns the title it was asked for, the page of a title is
  the title, and every page has the given infoboxes.
\<close>

definition stub_world :: "string list \<Rightarrow> world" where
  "stub_world boxes =
     \<lparr>wikipedia_search = (\<lambda>t. Inr [t]), page_html = (\<lambda>t. Inr t),
      infobox_texts = (\<lambda>h. boxes)\<rparr>"

definition no_infobox_world :: world where
  "no_infobox_world = stub_world []"

text \<open>A world where the search finds no title.\<close>

definition no_results_world :: world where
  "no_results_world =
     \<lparr>wikipedia_search = (\<lambda>t. Inr []), page_html = (\<lambda>t. Inr t),
      infobox_texts = (\<lambda>h. [''Atlantis''])\<rparr>"

definition no_birth_world :: world where
  "no_birth_world = stub_world [''Ada Lovelace Born in London'']"

definition paris_world :: world where
  "paris_world = stub_world [''Paris Population (2025) 2,048,472'']"

definition harvard_world :: world where
  "harvard_world = stub_world [''Harvard Established 1636 (388 years ago) Population 2020 12,345'']"

section \<open>Properties of the wildcard matcher\<close>

lemma first_some_SomeD: "first_some xs = Some y \<Longrightarrow> Some y \<in> set xs"
  by (induction xs rule: first_some.induct) auto

lemma match_wildcard_SomeD:
  assumes "match (''%'' # ps) src = Some m"
  shows "\<exists>k m'. 1 \<le> k \<and> k \<le> length src \<and> match ps (drop k src) = Some m'
           \<and> m = take k src @ m'"
proof -
  from assms
  have "Some m \<in> set (map (\<lambda>k. map_option (\<lambda>m. take k src @ m) (match ps (drop k src)))
                          (rev [1 ..< Suc (length src)]))"
    by (auto dest: first_some_SomeD)
  then obtain k where k: "k \<in> set (rev [1 ..< Suc (length src)])"
      and m: "Some m = map_option (\<lambda>m. take k src @ m) (match ps (drop k src))"
    by (metis (no_types, lifting) imageE list.set_map)
  from m obtain m' where "match ps (drop k src) = Some m'" "m = take k src @ m'"
    by (cases "match ps (drop k src)") auto
  with k show ?thesis by auto
qed

lemma match_literal_SomeD:
  assumes "p \<noteq> ''%''" "match (p # ps) src = Some m"
  shows "\<exists>s ss. src = s # ss \<and> lower s = lower p \<and> match ps ss = Some m"
  using assms by (cases src) (auto split: if_splits)

lemma match_wildcard_nonempty:
  "''%'' \<in> set pat \<Longrightarrow> match pat src = Some m \<Longrightarrow> m \<noteq> []"
proof (induction pat arbitrary: src m)
  case Nil
  then show ?case by simp
next
  case (Cons p ps)
  show ?case
  proof (cases "p = ''%''")
    case True
    with Cons.prems obtain k m' where "1 \<le> k" "k \<le> length src" "m = take k src @ m'"
      using match_wildcard_SomeD by blast
    then show ?thesis by (cases src) auto
  next
    case False
    with Cons.prems obtain s ss where "match ps ss = Some m"
      using match_literal_SomeD by blast
    with Cons.IH Cons.prems False show ?thesis by auto
  qed
qed

text \<open>
  C9. The pattern \<open>when was % born\<close> on the input \<open>when was ada lovelace born\<close> matches
  and the wildcard captures exactly \<open>ada lovelace\<close>; the wildcard alone does not match
  the empty input; and a match of any pattern with a wildcard has a non-empty capture.
\<close>

theorem match_wildcard_binds_tokens:
  "match [''when'', ''was'', ''%'', ''born''] [''when'', ''was'', ''ada'', ''lovelace'', ''born'']
     = Some [''ada'', ''lovelace'']
   \<and> match [''%''] [] = None
   \<and> (\<forall>pat src m. ''%'' \<in> set pat \<longrightarrow> match pat src = Some m \<longrightarrow> m \<noteq> [])"
proof -
  have "match [''when'', ''was'', ''%'', ''born'']
          [''when'', ''was'', ''ada'', ''lovelace'', ''born''] = Some [''ada'', ''lovelace'']"
    by (simp add: lower_def)
  moreover have "match [''%''] [] = None"
    by simp
  ultimately show ?thesis
    using match_wildcard_nonempty by blast
qed

theorem match_wildcard_binds_tokens_witness:
  "''%'' \<in> set [''what'', ''is'', ''%'']
   \<and> match [''what'', ''is'', ''%''] [''what'', ''is'', ''love''] = Some [''love'']
   \<and> [''love''] \<noteq> []"
proof -
  have a: "''%'' \<in> set [''what'', ''is'', ''%'']"
    by simp
  have b: "match [''what'', ''is'', ''%''] [''what'', ''is'', ''love''] = Some [''love'']"
    by (simp add: lower_def)
  from match_wildcard_binds_tokens a b have "[''love''] \<noteq> ([] :: string list)"
    by blast
  with a b show ?thesis by blast
qed



section \<open>Properties of the tokens of a query\<close>






lemma tokenize_ada:
  "tokenize ''When was Ada Lovelace born?'' = [''when'', ''was'', ''ada'', ''lovelace'', ''born'']"
  by code_simp

lemma match_born_ada:
  "match (split ''when was % born'') [''when'', ''was'', ''ada'', ''lovelace'', ''born'']
     = Some [''ada'', ''lovelace'']"
  by code_simp

section \<open>Properties of the search of the pattern-action list\<close>

lemma search_pa_no_match:
  "\<forall>(pat, act) \<in> set rules. match pat src = None \<Longrightarrow>
   search_pa rules src = ([], Inr [''I don't understand''])"
  by (induction rules src rule: search_pa.induct) auto

lemma search_pa_skip:
  "\<forall>(p, a) \<in> set pre. match p src = None \<Longrightarrow>
   search_pa (pre @ rules) src = search_pa rules src"
  by (induction pre) auto

lemma search_pa_first_match:
  assumes "\<forall>(p, a) \<in> set pre. match p src = None" "match pat src = Some mat"
  shows "search_pa (pre @ (pat, act) # rest) src =
     (case act mat of
        (out, Inl e) \<Rightarrow> (out, Inl e)
      | (out, Inr answer) \<Rightarrow> (out, Inr (if answer = [] then [''No answers''] else answer)))"
  using assms by (simp add: search_pa_skip)

lemma pa_list_patterns:
  "map fst (pa_list w) =
     [[''when'', ''was'', ''%'', ''born''],
      [''what'', ''is'', ''the'', ''polar'', ''radius'', ''of'', ''%''],
      [''When'', ''was'', ''%'', ''established''],
      [''what'', ''is'', ''the'', ''population'', ''of'', ''%''],
      [''what'', ''year'', ''was'', ''%'', ''established''],
      [''what'', ''is'', ''the'', ''undergraduate'', ''population'', ''of'', ''%''],
      [''bye'']]"
  by (simp add: pa_list_def split_def is_space_def)





text \<open>
  C4. When the input matches no pattern of the pattern-action list, \<open>search_pa_list\<close>
  prints nothing, raises nothing and returns exactly \<open>["I don't understand"]\<close>.
\<close>

theorem search_pa_list_no_match:
  "\<forall>(pat, act) \<in> set (pa_list w). match pat src = None \<Longrightarrow>
   search_pa_list w src = ([], Inr [''I don't understand''])"
  unfolding search_pa_list_def by (rule search_pa_no_match)

theorem search_pa_list_no_match_witness:
  "search_pa_list paris_world [''hello'', ''there''] = ([], Inr [''I don't understand''])"
proof -
  have "\<forall>pat \<in> set (map fst (pa_list paris_world)). match pat [''hello'', ''there''] = None"
    unfolding pa_list_patterns by (simp add: lower_def)
  then have "\<forall>(pat, act) \<in> set (pa_list paris_world). match pat [''hello'', ''there''] = None"
    by auto
  then show ?thesis by (rule search_pa_list_no_match)
qed

text \<open>
  C5. When the action of the first matching rule returns an answer list, the search
  returns \<open>["No answers"]\<close> if that list is empty and the list itself otherwise, with
  what the action printed; this holds for any rule list and so for \<open>search_pa_list\<close>.
\<close>

theorem search_pa_first_match_answers:
  assumes "\<forall>(p, a) \<in> set pre. match p src = None"
    and "match pat src = Some mat"
    and "act mat = (out, Inr answer)"
  shows "search_pa (pre @ (pat, act) # rest) src
           = (out, Inr (if answer = [] then [''No answers''] else answer))
         \<and> (pa_list w = pre @ (pat, act) # rest \<longrightarrow>
              search_pa_list w src
                = (out, Inr (if answer = [] then [''No answers''] else answer)))"
  using assms by (simp add: search_pa_first_match search_pa_list_def)

lemma population_size_paris:
  "population_size paris_world [''paris'']
     = ([''Paris Population (2025) 2,048,472''], Inr [''paris has a population of 2,048,472''])"
  by code_simp

lemma pa_list_split_population:
  "pa_list w = take 3 (pa_list w)
     @ (split ''what is the population of %'', population_size w) # drop 4 (pa_list w)"
  by (simp add: pa_list_def)

lemma match_population_paris:
  "match (split ''what is the population of %'')
     [''what'', ''is'', ''the'', ''population'', ''of'', ''paris''] = Some [''paris'']"
  by code_simp

lemma no_match_before_population:
  "\<forall>(p, a) \<in> set (take 3 (pa_list w)).
     match p [''what'', ''is'', ''the'', ''population'', ''of'', ''paris''] = None"
  by (simp add: pa_list_def split_def is_space_def lower_def)

theorem search_pa_first_match_answers_witness:
  "search_pa [([''ping''], \<lambda>m. ([], Inr []))] [''ping''] = ([], Inr [''No answers''])
   \<and> search_pa_list paris_world [''what'', ''is'', ''the'', ''population'', ''of'', ''paris'']
       = ([''Paris Population (2025) 2,048,472''], Inr [''paris has a population of 2,048,472''])"
proof -
  have "match [''ping''] [''ping''] = Some []"
    by (simp add: lower_def)
  from search_pa_first_match_answers
         [where pre = "[]" and rest = "[]" and act = "\<lambda>m. ([], Inr [])", OF _ this]
  have a: "search_pa [([''ping''], \<lambda>m. ([], Inr []))] [''ping''] = ([], Inr [''No answers''])"
    by simp
  from search_pa_first_match_answers
         [where pre = "take 3 (pa_list paris_world)" and act = "population_size paris_world"
            and w = paris_world and rest = "drop 4 (pa_list paris_world)",
          OF no_match_before_population match_population_paris population_size_paris]
       pa_list_split_population [of paris_world]
  have b: "search_pa_list paris_world [''what'', ''is'', ''the'', ''population'', ''of'', ''paris'']
       = ([''Paris Population (2025) 2,048,472''], Inr [''paris has a population of 2,048,472''])"
    by simp
  from a b show ?thesis by simp
qed

section \<open>Properties of the query loop\<close>

lemma query_step_attribute_error:
  "search_pa_list w (tokenize line) = (out, Inl (AttributeError x)) \<Longrightarrow>
   query_step w line
     = ([[], ''Your query? ''] @ out @ [''Page does not match pattern!''], Continue)"
  by (simp add: query_step_def)

lemma query_turns_continue:
  "query_step w line = (out, Continue) \<Longrightarrow>
   query_turns w (line # later) = (out @ fst (query_turns w later), snd (query_turns w later))"
  by (simp split: prod.splits)

text \<open>
  C1. When the action of the first rule that matches the question raises
  \<open>AttributeError\<close>, the turn of the query loop prints, after what the action printed,
  the one line \<open>Page does not match pattern!\<close> and the loop goes on with the lines that
  follow; the search raises that error whatever rules stand after the matching one, so
  none of them is tried.
\<close>

theorem attribute_error_single_diagnostic:
  assumes "pa_list w = pre @ (pat, act) # rest"
    and "\<forall>(p, a) \<in> set pre. match p (tokenize line) = None"
    and "match pat (tokenize line) = Some mat"
    and "act mat = (out, Inl (AttributeError x))"
  shows "query_step w line
           = ([[], ''Your query? ''] @ out @ [''Page does not match pattern!''], Continue)
         \<and> query_turns w (line # later)
           = ([[], ''Your query? ''] @ out @ [''Page does not match pattern!'']
                @ fst (query_turns w later), snd (query_turns w later))
         \<and> (\<forall>rest'. search_pa (pre @ (pat, act) # rest') (tokenize line)
                       = (out, Inl (AttributeError x)))"
proof -
  have r: "search_pa (pre @ (pat, act) # rest') (tokenize line) = (out, Inl (AttributeError x))"
    for rest'
    using assms(2-4) by (simp add: search_pa_first_match)
  from r [of rest] assms(1)
  have "search_pa_list w (tokenize line) = (out, Inl (AttributeError x))"
    by (simp add: search_pa_list_def)
  then have s: "query_step w line
           = ([[], ''Your query? ''] @ out @ [''Page does not match pattern!''], Continue)"
    by (rule query_step_attribute_error)
  from query_turns_continue [OF s, of later] s r show ?thesis
    by simp
qed

lemma birth_date_no_birth:
  "birth_date no_birth_world [''ada'', ''lovelace'']
     = ([], Inl (AttributeError
          ''Page infobox has no birth information (at least none in xxxx-xx-xx format)''))"
  by code_simp

lemma pa_list_split_birth:
  "pa_list w = [] @ (split ''when was % born'', birth_date w) # tl (pa_list w)"
  by (simp add: pa_list_def)

theorem attribute_error_single_diagnostic_witness:
  "query_step no_birth_world ''When was Ada Lovelace born?''
     = ([[], ''Your query? '', ''Page does not match pattern!''], Continue)"
proof -
  have "\<forall>(p, a) \<in> set []. match p (tokenize ''When was Ada Lovelace born?'') = None"
    by simp
  from attribute_error_single_diagnostic
         [where pre = "[]" and w = no_birth_world and later = "[]",
          OF pa_list_split_birth this, unfolded tokenize_ada, OF match_born_ada birth_date_no_birth]
  show ?thesis by (simp add: tokenize_ada)
qed

text \<open>
  C10. The third entry of the pattern-action list pairs \<open>When was % established\<close> with
  \<open>population_size\<close>. An input that matches it and neither of the two patterns before
  it gets from \<open>search_pa_list\<close> what \<open>population_size\<close> gives on the capture, and every
  answer list it gets is the one sentence \<open>... has a population of ...\<close> about the first
  captured token.
\<close>

theorem when_was_established_gives_population:
  assumes "match (split ''When was % established'') src = Some mat"
    and "match (split ''when was % born'') src = None"
    and "match (split ''what is the polar radius of %'') src = None"
  shows "pa_list w ! 2 = (split ''When was % established'', population_size w)
         \<and> search_pa_list w src = population_size w mat
         \<and> (\<forall>answers. snd (search_pa_list w src) = Inr answers \<longrightarrow>
               (\<exists>place g. mat = place # tl mat
                  \<and> answers = [place @ '' has a population of '' @ g]))"
proof -
  have a: "pa_list w ! 2 = (split ''When was % established'', population_size w)"
    by (simp add: pa_list_def)
  have b: "search_pa_list w src = population_size w mat"
    using assms
    by (auto simp add: search_pa_list_def pa_list_def population_size_def singleton_def
        split: prod.splits sum.splits)
  have c: "\<exists>place g. mat = place # tl mat \<and> answers = [place @ '' has a population of '' @ g]"
    if "snd (population_size w mat) = Inr answers" for answers
    using that
    by (cases mat)
       (auto simp add: population_size_def singleton_def on_first_def get_population_size_def
          extract_field_def split: prod.splits sum.splits)
  from a b c show ?thesis by simp
qed

lemma match_established_harvard:
  "match (split ''When was % established'') [''when'', ''was'', ''harvard'', ''established'']
     = Some [''harvard'']"
  by code_simp

lemma no_match_born_harvard:
  "match (split ''when was % born'') [''when'', ''was'', ''harvard'', ''established''] = None"
  by code_simp

lemma no_match_polar_harvard:
  "match (split ''what is the polar radius of %'')
     [''when'', ''was'', ''harvard'', ''established''] = None"
  by code_simp

lemma population_size_harvard:
  "population_size harvard_world [''harvard'']
     = ([''Harvard Established 1636 (388 years ago) Population 2020 12,345''],
        Inr [''harvard has a population of 12,345''])"
  by code_simp

theorem when_was_established_gives_population_witness:
  "search_pa_list harvard_world [''when'', ''was'', ''harvard'', ''established'']
     = ([''Harvard Established 1636 (388 years ago) Population 2020 12,345''],
        Inr [''harvard has a population of 12,345''])"
  using when_was_established_gives_population
          [OF match_established_harvard no_match_born_harvard no_match_polar_harvard,
           of harvard_world]
  by (simp add: population_size_harvard)

text \<open>
  C3 fails on the code: the loop catches \<open>KeyboardInterrupt\<close>, \<open>EOFError\<close> and
  \<open>AttributeError\<close> only. On a page without an infobox the \<open>LookupError\<close> of
  \<open>get_first_infobox_text\<close> leaves the loop, and so does the \<open>IndexError\<close> of
  \<open>get_page_html\<close> when the search finds no title: no diagnostic is printed, the line
  that follows is not read and the farewell is not printed.
\<close>

theorem lookup_error_ends_session:
  "query_loop no_infobox_world [''What is the population of Atlantis?'', ''bye'']
     = ([''Welcome to the wikipedia database!\<newline>'', [], ''Your query? ''],
        Crashed (LookupError ''Page has no infobox''))
   \<and> query_loop no_results_world [''What is the population of Atlantis?'', ''bye'']
     = ([''Welcome to the wikipedia database!\<newline>'', [], ''Your query? ''],
        Crashed (IndexError ''list index out of range''))"
  by code_simp

section \<open>Properties of the cleaning of a text\<close>

lemma sublist_double: "sublist [c, c] s = has_double c s"
proof (induction c s rule: has_double.induct)
  case (1 c)
  show ?case by simp
next
  case (2 c x)
  show ?case by (simp add: sublist_Cons_right)
next
  case (3 c x y ys)
  have "sublist [c, c] (x # y # ys) = (prefix [c, c] (x # y # ys) \<or> sublist [c, c] (y # ys))"
    by (rule sublist_Cons_right)
  also have "prefix [c, c] (x # y # ys) = (x = c \<and> y = c)"
    by auto
  finally show ?case using 3 by simp
qed

lemma collapse_runs_head: "\<exists>r. collapse_runs c (y # ys) = y # r"
  by (induction ys arbitrary: y) auto

lemma collapse_runs_run:
  "collapse_runs c (c # xs) = c # collapse_runs c (dropWhile (\<lambda>y. y = c) xs)"
  by (induction xs) auto

lemma collapse_runs_other: "x \<noteq> c \<Longrightarrow> collapse_runs c (x # xs) = x # collapse_runs c xs"
  by (cases xs) auto

lemma re_sub_plus_collapse: "re_sub_plus c s = collapse_runs c s"
proof (induction c s rule: re_sub_plus.induct)
  case (1 c)
  show ?case by simp
next
  case (2 c x xs)
  show ?case
  proof (cases "x = c")
    case True
    with 2 show ?thesis by (simp add: collapse_runs_run)
  next
    case False
    with 2 show ?thesis by (simp add: collapse_runs_other)
  qed
qed

lemma collapse_runs_no_double: "\<not> has_double c (collapse_runs c s)"
proof (induction c s rule: collapse_runs.induct)
  case (3 c x y ys)
  obtain r where r: "collapse_runs c (y # ys) = y # r"
    using collapse_runs_head by blast
  with 3 show ?case by auto
qed simp_all

lemma collapse_runs_keeps_no_double:
  "\<not> has_double d s \<Longrightarrow> \<not> has_double d (collapse_runs c s)"
proof (induction c s rule: collapse_runs.induct)
  case (3 c x y ys)
  obtain r where r: "collapse_runs c (y # ys) = y # r"
    using collapse_runs_head by blast
  with 3 show ?case by auto
qed simp_all

lemma collapse_runs_set: "set (collapse_runs c s) \<subseteq> set s"
  by (induction c s rule: collapse_runs.induct) auto

lemma printable_space: "printable CHR '' ''"
  by (simp add: printable_def)

text \<open>
  C7, as the code has it. \<open>clean_text\<close> puts a space in the place of every character
  outside the printable set (it does not remove it), then makes one space of every run
  of spaces and one newline of every run of newlines. The result has printable
  characters only, no two spaces side by side and no two newlines side by side. The
  function is total.
\<close>

theorem clean_text_replaces_and_collapses:
  "clean_text text
     = collapse_runs CHR 0x0A
         (collapse_runs CHR '' '' (map (\<lambda>c. if printable c then c else CHR '' '') text))
   \<and> list_all printable (clean_text text)
   \<and> \<not> sublist [CHR '' '', CHR '' ''] (clean_text text)
   \<and> \<not> sublist [CHR 0x0A, CHR 0x0A] (clean_text text)"
proof -
  define a where "a = map (\<lambda>c. if printable c then c else CHR '' '') text"
  define b where "b = collapse_runs CHR '' '' a"
  have eq: "clean_text text = collapse_runs CHR 0x0A b"
    by (simp add: clean_text_def re_sub_plus_collapse a_def b_def)
  have "set (collapse_runs CHR 0x0A b) \<subseteq> set b"
    by (rule collapse_runs_set)
  moreover have "set b \<subseteq> set a"
    unfolding b_def by (rule collapse_runs_set)
  moreover have "\<forall>c \<in> set a. printable c"
    by (auto simp: a_def printable_space)
  ultimately have p: "list_all printable (collapse_runs CHR 0x0A b)"
    unfolding list_all_iff by blast
  have "\<not> has_double CHR '' '' b"
    unfolding b_def by (rule collapse_runs_no_double)
  then have s: "\<not> has_double CHR '' '' (collapse_runs CHR 0x0A b)"
    by (rule collapse_runs_keeps_no_double)
  have n: "\<not> has_double CHR 0x0A (collapse_runs CHR 0x0A b)"
    by (rule collapse_runs_no_double)
  from p s n show ?thesis
    unfolding eq sublist_double by (simp add: a_def b_def)
qed

text \<open>
  C7, as the specification states it, fails: on \<open>a\<close>, the bell character, \<open>b\<close> the code
  returns \<open>a b\<close>, and removing the character gives \<open>ab\<close>.
\<close>

theorem clean_text_does_not_remove:
  "clean_text [CHR ''a'', CHR 0x07, CHR ''b''] = ''a b''
   \<and> clean_text_removing [CHR ''a'', CHR 0x07, CHR ''b''] = ''ab''"
  by code_simp

section \<open>Properties of the regular expression search\<close>

lemma search_at_none:
  "(\<And>i. i \<le> length s \<Longrightarrow> match_here fl r (drop i s) = None) \<Longrightarrow>
   search_at fl r pos s = None"
proof (induction s arbitrary: pos)
  case Nil
  from Nil [of 0] show ?case by simp
next
  case (Cons x xs)
  from Cons.prems [of 0] have h: "match_here fl r (x # xs) = None" by simp
  have "match_here fl r (drop i xs) = None" if "i \<le> length xs" for i
    using Cons.prems [of "Suc i"] that by simp
  then have "search_at fl r (Suc pos) xs = None" by (rule Cons.IH)
  with h show ?case by simp
qed

lemma search_at_some:
  "i \<le> length s \<Longrightarrow> (\<And>j. j < i \<Longrightarrow> match_here fl r (drop j s) = None) \<Longrightarrow>
   match_here fl r (drop i s) = Some (rest, c) \<Longrightarrow>
   search_at fl r pos s
     = Some \<lparr>m_start = pos + i, m_end = pos + i + (length (drop i s) - length rest),
             m_groups = c\<rparr>"
proof (induction i arbitrary: s pos)
  case 0
  then show ?case by (cases s) auto
next
  case (Suc i)
  then obtain x xs where s: "s = x # xs" by (cases s) auto
  from Suc.prems(2) [of 0] s have h: "match_here fl r (x # xs) = None" by simp
  have n: "match_here fl r (drop j xs) = None" if "j < i" for j
    using Suc.prems(2) [of "Suc j"] that s by simp
  from Suc.prems s have "i \<le> length xs" "match_here fl r (drop i xs) = Some (rest, c)"
    by auto
  from Suc.IH [OF this(1) n this(2), of "Suc pos"] h s show ?case by simp
qed

lemma search_at_someD:
  "search_at fl r pos s = Some m \<Longrightarrow>
   \<exists>i rest. i \<le> length s \<and> match_here fl r (drop i s) = Some (rest, m_groups m)"
proof (induction s arbitrary: pos)
  case Nil
  then show ?case by (auto split: option.splits)
next
  case (Cons x xs)
  show ?case
  proof (cases "match_here fl r (x # xs)")
    case None
    with Cons.prems have "search_at fl r (Suc pos) xs = Some m" by simp
    from Cons.IH [OF this] obtain i rest where
      "i \<le> length xs" "match_here fl r (drop i xs) = Some (rest, m_groups m)" by blast
    then have "Suc i \<le> length (x # xs)
        \<and> match_here fl r (drop (Suc i) (x # xs)) = Some (rest, m_groups m)"
      by simp
    then show ?thesis by blast
  next
    case (Some a)
    with Cons.prems have "match_here fl r (drop 0 (x # xs)) = Some (fst a, m_groups m)"
      by (cases a) auto
    then show ?thesis by blast
  qed
qed

lemma try_down_someD: "try_down k s lo n = Some res \<Longrightarrow> \<exists>j. k (drop j s) = Some res"
proof (induction n)
  case 0
  then have "k (drop 0 s) = Some res" by (simp split: if_splits)
  then show ?case by blast
next
  case (Suc n)
  then show ?case by (auto split: if_splits option.splits)
qed

lemma try_up_someD: "try_up k s n d = Some res \<Longrightarrow> \<exists>j. k (drop j s) = Some res"
  by (induction d arbitrary: n) (auto split: option.splits)

lemma sublist_suffix_trans: "sublist g s' \<Longrightarrow> suffix s' s \<Longrightarrow> sublist g s"
  using sublist_order.order_trans suffix_imp_sublist by blast

lemma caps_in_suffix: "caps_in c s' \<Longrightarrow> suffix s' s \<Longrightarrow> caps_in c s"
  by (auto simp: caps_in_def list_all_iff intro: sublist_suffix_trans)

text \<open>
  A successful match has called its continuation on a suffix of the text, with new
  captures that are parts of the text.
\<close>

lemma mt_result:
  "mt fl r k s c = Some res \<Longrightarrow>
   \<exists>s' new. k s' (new @ c) = Some res \<and> suffix s' s \<and> caps_in new s"
proof (induction r arbitrary: k s c res)
  case Eps
  then have "k s ([] @ c) = Some res \<and> suffix s s \<and> caps_in [] s"
    by (simp add: caps_in_def)
  then show ?case by blast
next
  case (Atom a)
  then obtain x xs where s: "s = x # xs" "k xs ([] @ c) = Some res"
    by (cases s) (auto split: if_splits)
  then have "suffix xs s \<and> caps_in [] s"
    by (simp add: caps_in_def suffix_ConsI)
  with s show ?case by blast
next
  case (Cat r1 r2)
  from Cat.prems have "mt fl r1 (mt fl r2 k) s c = Some res" by simp
  from Cat.IH(1) [OF this] obtain s1 new1 where
    1: "mt fl r2 k s1 (new1 @ c) = Some res" "suffix s1 s" "caps_in new1 s" by blast
  from Cat.IH(2) [OF 1(1)] obtain s2 new2 where
    2: "k s2 (new2 @ new1 @ c) = Some res" "suffix s2 s1" "caps_in new2 s1" by blast
  from 1 2 have "k s2 ((new2 @ new1) @ c) = Some res \<and> suffix s2 s \<and> caps_in (new2 @ new1) s"
    using caps_in_suffix [of new2 s1 s] by (auto simp: caps_in_def intro: suffix_order.trans)
  then show ?case by blast
next
  case (Rep greedy lo hi a)
  then have "\<exists>j. k (drop j s) c = Some res"
    by (auto simp: Let_def split: if_splits dest: try_down_someD try_up_someD)
  then obtain j where "k (drop j s) ([] @ c) = Some res" by auto
  moreover have "suffix (drop j s) s \<and> caps_in [] s"
    by (simp add: caps_in_def suffix_drop)
  ultimately show ?case by blast
next
  case (Opt r)
  show ?case
  proof (cases "mt fl r k s c")
    case None
    with Opt.prems have "k s ([] @ c) = Some res \<and> suffix s s \<and> caps_in [] s"
      by (simp add: caps_in_def)
    then show ?thesis by blast
  next
    case (Some a)
    with Opt.prems have "mt fl r k s c = Some res" by simp
    then show ?thesis by (rule Opt.IH)
  qed
next
  case (Group name r)
  let ?k = "\<lambda>s' c'. k s' ((name, take (length s - length s') s) # c')"
  from Group.prems have "mt fl r ?k s c = Some res" by simp
  from Group.IH [OF this] obtain s' new where
    g: "?k s' (new @ c) = Some res" "suffix s' s" "caps_in new s" by blast
  let ?new = "(name, take (length s - length s') s) # new"
  from g have "k s' (?new @ c) = Some res \<and> suffix s' s \<and> caps_in ?new s"
    by (simp add: caps_in_def)
  then show ?case by blast
qed

lemma match_here_caps:
  assumes "match_here fl r s = Some (rest, c)"
  shows "suffix rest s \<and> caps_in c s"
proof -
  from assms have "mt fl r (\<lambda>s' c. Some (s', c)) s [] = Some (rest, c)"
    by (simp add: match_here_def)
  from mt_result [OF this] show ?thesis by auto
qed

lemma group_sublist:
  assumes "match_here fl r s = Some (rest, c)" "map_of c name = Some g"
  shows "sublist g s"
proof -
  from assms(1) have "caps_in c s" using match_here_caps by blast
  moreover from assms(2) have "(name, g) \<in> set c" by (rule map_of_SomeD)
  ultimately show ?thesis by (auto simp: caps_in_def list_all_iff)
qed

lemma sublist_drop_trans: "sublist g (drop i s) \<Longrightarrow> sublist g s"
  using sublist_order.order_trans sublist_drop by blast

text \<open>
  C6. \<open>get_match\<close> searches with the flags \<open>IGNORECASE\<close> and \<open>DOTALL\<close>: the dot matches
  every character, the newline too, and a literal matches up to case. The search is not
  anchored: when the pattern matches at no position of the text, \<open>get_match\<close> raises
  \<open>AttributeError\<close> with the error text it was given, and it raises nothing else; when
  \<open>i\<close> is the leftmost position with a match, it returns the match object of that
  match. Every named group read from the returned match is a contiguous part of the
  text.
\<close>

theorem get_match_contract:
  "ignorecase get_match_flags \<and> dotall get_match_flags
   \<and> atom_ok get_match_flags Dot c
   \<and> atom_ok get_match_flags (Lit x) c = (lower_char c = lower_char x)
   \<and> ((\<forall>i\<le>length text. match_here get_match_flags pattern (drop i text) = None) \<longrightarrow>
        get_match text pattern error_text = Inl (AttributeError error_text))
   \<and> (\<forall>i rest caps.
         i \<le> length text \<longrightarrow>
         (\<forall>j<i. match_here get_match_flags pattern (drop j text) = None) \<longrightarrow>
         match_here get_match_flags pattern (drop i text) = Some (rest, caps) \<longrightarrow>
         get_match text pattern error_text
           = Inr \<lparr>m_start = i, m_end = i + (length (drop i text) - length rest),
                  m_groups = caps\<rparr>)
   \<and> (\<forall>m name g. get_match text pattern error_text = Inr m \<longrightarrow> group m name = Inr g \<longrightarrow>
         sublist g text)
   \<and> (\<forall>e. get_match text pattern error_text = Inl e \<longrightarrow> e = AttributeError error_text)"
proof -
  have flags: "ignorecase get_match_flags \<and> dotall get_match_flags
     \<and> atom_ok get_match_flags Dot c
     \<and> atom_ok get_match_flags (Lit x) c = (lower_char c = lower_char x)"
    by (simp add: get_match_flags_def)
  have none: "get_match text pattern error_text = Inl (AttributeError error_text)"
    if "\<forall>i\<le>length text. match_here get_match_flags pattern (drop i text) = None"
  proof -
    from that have "search_at get_match_flags pattern 0 text = None"
      by (intro search_at_none) simp
    then show ?thesis by (simp add: get_match_def re_search_def)
  qed
  have some: "get_match text pattern error_text
           = Inr \<lparr>m_start = i, m_end = i + (length (drop i text) - length rest),
                  m_groups = caps\<rparr>"
    if "i \<le> length text" "\<forall>j<i. match_here get_match_flags pattern (drop j text) = None"
      "match_here get_match_flags pattern (drop i text) = Some (rest, caps)" for i rest caps
  proof -
    from that(2) have "\<And>j. j < i \<Longrightarrow> match_here get_match_flags pattern (drop j text) = None"
      by simp
    from search_at_some [OF that(1) this that(3), of 0] show ?thesis
      by (simp add: get_match_def re_search_def)
  qed
  have grp: "sublist g text"
    if "get_match text pattern error_text = Inr m" "group m name = Inr g" for m name g
  proof -
    from that(1) have "search_at get_match_flags pattern 0 text = Some m"
      by (simp add: get_match_def re_search_def split: option.splits)
    then obtain i rest where
      h: "match_here get_match_flags pattern (drop i text) = Some (rest, m_groups m)"
      using search_at_someD by blast
    from that(2) have "map_of (m_groups m) name = Some g"
      by (simp add: group_def split: option.splits)
    with h have "sublist g (drop i text)" by (rule group_sublist)
    then show ?thesis by (rule sublist_drop_trans)
  qed
  have err: "e = AttributeError error_text" if "get_match text pattern error_text = Inl e" for e
    using that by (simp add: get_match_def split: option.splits)
  from flags none some grp err show ?thesis by blast
qed

lemma get_match_born:
  "get_match ''x BORN\<newline>1815-12-10'' birth_pattern ''none''
     = Inr \<lparr>m_start = 2, m_end = 17, m_groups = [(''birth'', ''1815-12-10'')]\<rparr>"
  by code_simp

lemma no_birth_in_x: "match_here get_match_flags birth_pattern ''x'' = None"
  by code_simp

lemma no_birth_in_empty: "match_here get_match_flags birth_pattern [] = None"
  by code_simp

theorem get_match_contract_witness:
  "get_match ''x BORN\<newline>1815-12-10'' birth_pattern ''none''
     = Inr \<lparr>m_start = 2, m_end = 17, m_groups = [(''birth'', ''1815-12-10'')]\<rparr>
   \<and> group \<lparr>m_start = 2, m_end = 17, m_groups = [(''birth'', ''1815-12-10'')]\<rparr> ''birth''
     = Inr ''1815-12-10''
   \<and> sublist ''1815-12-10'' ''x BORN\<newline>1815-12-10''
   \<and> get_match ''x'' birth_pattern ''none'' = Inl (AttributeError ''none'')"
proof -
  have g: "group \<lparr>m_start = 2, m_end = 17, m_groups = [(''birth'', ''1815-12-10'')]\<rparr> ''birth''
     = Inr ''1815-12-10''"
    by (simp add: group_def)
  from get_match_contract [of _ _ "''x BORN\<newline>1815-12-10''" birth_pattern "''none''"]
    get_match_born g
  have s: "sublist ''1815-12-10'' ''x BORN\<newline>1815-12-10''"
    by blast
  have "match_here get_match_flags birth_pattern (drop i ''x'') = None"
    if "i \<le> length ''x''" for i
    using that no_birth_in_x no_birth_in_empty by (cases i) auto
  with get_match_contract [of _ _ "''x''" birth_pattern "''none''"]
  have n: "get_match ''x'' birth_pattern ''none'' = Inl (AttributeError ''none'')"
    by blast
  from get_match_born g s n show ?thesis by blast
qed

text \<open>
  C8, as the code has it. On the fact block \<open>...Established\<newline>1867; 158 years ago (1867)...\<close>
  the establishment pattern matches from \<open>Established\<close> to the first \<open>;\<close>, the group
  \<open>time\<close> is \<open>1867\<close>, and \<open>get_establish_year\<close> answers \<open>... was established in 1867\<close>.
\<close>

theorem establish_capture_is_year:
  "get_match ''...Established\<newline>1867; 158 years ago (1867)...'' establish_pattern error_text
     = Inr \<lparr>m_start = 3, m_end = 20, m_groups = [(''time'', ''1867'')]\<rparr>
   \<and> group \<lparr>m_start = 3, m_end = 20, m_groups = [(''time'', ''1867'')]\<rparr> ''time''
     = Inr ''1867''
   \<and> get_establish_year
        (stub_world [''...Established\<newline>1867; 158 years ago (1867)...'']) ''uiuc''
     = ([''...Established\<newline>1867; 158 years ago (1867)...''],
        Inr ''uiuc was established in 1867'')"
  by code_simp

text \<open>
  C8, as the specification states it, fails: the group \<open>time\<close> of the match on that fact
  block is not \<open>1867; 158 years ago \<close>.
\<close>

theorem establish_capture_stops_at_semicolon:
  "get_match ''...Established\<newline>1867; 158 years ago (1867)...'' establish_pattern []
     = Inr \<lparr>m_start = 3, m_end = 20, m_groups = [(''time'', ''1867'')]\<rparr>
   \<and> group \<lparr>m_start = 3, m_end = 20, m_groups = [(''time'', ''1867'')]\<rparr> ''time''
     \<noteq> Inr ''1867; 158 years ago ''"
  by code_simp

end
